theory Spec2Isabelle
  imports Main "HOL-Library.Multiset"
begin

section \<open>Python values, errors and module scope\<close>

text \<open>
  The values that occur in the module-level dictionary \<open>bert_params\<close>. A float literal
  is kept as its source text, which is also what \<open>str\<close> prints for \<open>0.0003\<close>.
\<close>

datatype pyval = PStr string | PInt int | PFloat string | PBool bool

text \<open>Exceptions are values: every raise of the source is an \<open>Inl\<close> branch.\<close>

datatype error =
    NameError string
  | KeyError string
  | AttributeError string
  | ValueError string
  | IndexError string
  | FileNotFoundError string
  | RuntimeError string

type_synonym pydict = "(string \<times> pyval) list"

definition getitem :: "pydict \<Rightarrow> string \<Rightarrow> error + pyval" where
  "getitem d k = (case map_of d k of None \<Rightarrow> Inl (KeyError k) | Some v \<Rightarrow> Inr v)"

definition bind_err :: "error + 'a \<Rightarrow> ('a \<Rightarrow> error + 'b) \<Rightarrow> error + 'b" where
  "bind_err m f = (case m of Inl e \<Rightarrow> Inl e | Inr v \<Rightarrow> f v)"

text \<open>\<open>bert_tree.py\<close>, lines 10 to 21.\<close>

definition bert_params :: pydict where
  "bert_params =
     [(''model'', PStr ''emilyalsentzer/Bio_ClinicalBERT''),
      (''learning_rate'', PFloat ''0.0003''),
      (''batch_size'', PInt 1),
      (''epochs'', PInt 4),
      (''dataset'', PStr ''small''),
      (''freeze_base_layer'', PBool True),
      (''load_checkpoint'', PBool False),
      (''save_checkpoints'', PBool False),
      (''load_cached_dataset'', PBool True),
      (''save_results'', PBool True)]"

text \<open>
  What a global name of the module can be bound to: the dictionary \<open>bert_params\<close>, or
  an object the model does not look into (an imported module, class or function, a
  class or an instance defined here), known by its name.
\<close>

datatype pyobj = Object string | Dict pydict

text \<open>
  The names bound at module level in \<open>bert_tree.py\<close>: the imports of lines 1 to 8,
  \<open>bert_params\<close>, the class, and the two names the script block binds (lines 133 and 145).
\<close>

definition module_globals :: "(string \<times> pyobj) list" where
  "module_globals =
     [(''AutoTokenizer'', Object ''transformers.AutoTokenizer''),
      (''AutoConfig'', Object ''transformers.AutoConfig''),
      (''TFAutoModel'', Object ''transformers.TFAutoModel''),
      (''DataCollatorWithPadding'', Object ''transformers.DataCollatorWithPadding''),
      (''ExtraTreesClassifier'', Object ''sklearn.ensemble.ExtraTreesClassifier''),
      (''RandomForestClassifier'', Object ''sklearn.ensemble.RandomForestClassifier''),
      (''GradientBoostingClassifier'', Object ''sklearn.ensemble.GradientBoostingClassifier''),
      (''np'', Object ''numpy''),
      (''pickle'', Object ''pickle''),
      (''BERT'', Object ''models.bert.BERT''),
      (''evaluate'', Object ''evaluation.evaluate''),
      (''set_seeds'', Object ''utils.set_seeds''),
      (''bert_params'', Dict bert_params),
      (''BERTTree'', Object ''BERTTree''),
      (''params'', Object ''params''),
      (''bert_tree'', Object ''bert_tree'')]"

text \<open>The builtins the module calls; no builtin of Python is named \<open>os\<close> or \<open>model_name\<close>.\<close>

definition builtins :: "(string \<times> pyobj) list" where
  "builtins =
     [(''open'', Object ''open''), (''print'', Object ''print''),
      (''range'', Object ''range''), (''str'', Object ''str'')]"

text \<open>
  Loading a name that the enclosing function never assigns: the module's globals, then
  the builtins; an unbound name raises \<open>NameError\<close>.
\<close>

definition load_global :: "string \<Rightarrow> error + pyobj" where
  "load_global n =
     (case map_of (module_globals @ builtins) n of
        None \<Rightarrow> Inl (NameError n)
      | Some v \<Rightarrow> Inr v)"

subsection \<open>Strings\<close>

fun digits :: "nat \<Rightarrow> string" where
  "digits n =
     (if n < 10 then [char_of (48 + n)] else digits (n div 10) @ [char_of (48 + n mod 10)])"

declare digits.simps [simp del]

text \<open>\<open>str(v)\<close>, as an f-string field prints a value.\<close>

fun py_str :: "pyval \<Rightarrow> string" where
  "py_str (PStr s) = s"
| "py_str (PInt i) = (if i < 0 then CHR ''-'' # digits (nat (- i)) else digits (nat i))"
| "py_str (PFloat s) = s"
| "py_str (PBool b) = (if b then ''True'' else ''False'')"

fun py_repr :: "pyval \<Rightarrow> string" where
  "py_repr (PStr s) = [CHR 0x27] @ s @ [CHR 0x27]"
| "py_repr v = py_str v"

fun join_with :: "string \<Rightarrow> string list \<Rightarrow> string" where
  "join_with sep [] = []"
| "join_with sep [x] = x"
| "join_with sep (x # y # ys) = x @ sep @ join_with sep (y # ys)"

text \<open>
  The text of an object in an f-string. What Python prints for a module, class or
  function depends on the installation; the model prints its name in angle brackets.
\<close>

fun obj_str :: "pyobj \<Rightarrow> string" where
  "obj_str (Object n) = ''<'' @ n @ ''>''"
| "obj_str (Dict d) =
     ''{'' @ join_with '', '' (map (\<lambda>(k, v). py_repr (PStr k) @ '': '' @ py_repr v) d) @ ''}''"

text \<open>\<open>s.split(c)\<close>: the pieces between the separators, never an empty list.\<close>

fun split_on :: "char \<Rightarrow> string \<Rightarrow> string list" where
  "split_on c [] = [[]]"
| "split_on c (x # xs) =
     (if x = c then [] # split_on c xs
      else (case split_on c xs of [] \<Rightarrow> [[x]] | p # ps \<Rightarrow> (x # p) # ps))"

definition str_split :: "pyval \<Rightarrow> char \<Rightarrow> error + string list" where
  "str_split v c =
     (case v of PStr s \<Rightarrow> Inr (split_on c s) | _ \<Rightarrow> Inl (AttributeError ''split''))"

text \<open>\<open>xs[-1]\<close>.\<close>

definition py_last :: "'e list \<Rightarrow> error + 'e" where
  "py_last xs = (if xs = [] then Inl (IndexError ''list index out of range'') else Inr (last xs))"

definition os_path_join :: "string \<Rightarrow> string \<Rightarrow> string" where
  "os_path_join a b = a @ ''/'' @ b"

section \<open>The world outside the process\<close>

text \<open>
  A numpy array as this module produces them: the two-dimensional feature matrix (one
  row per example) or the one-dimensional label vector.
\<close>

datatype 'a ndarray = Matrix "'a list list" | Vector "int list"

text \<open>
  The data directory (file name to pickled array) and the log of the calls made to the
  encoder's \<open>predict\<close>, each with the batched dataset it was given.
\<close>

record ('x, 'a) world =
  files :: "string \<rightharpoonup> 'a ndarray"
  predict_calls :: "('x \<times> int) list list list"

section \<open>\<open>BERT.__init__\<close> (\<open>bert.py\<close>, lines 24 to 72)\<close>

record bert_fields =
  model_id :: pyval
  dataset_id :: pyval
  batch_size :: pyval
  learning_rate :: pyval
  freeze_bert :: pyval
  freeze_bert_encoder :: pyval
  load_checkpoint_from :: pyval
  save_checkpoints :: pyval
  epochs :: pyval
  save_results :: pyval

text \<open>Lines 27 to 36: ten subscript reads, in this order.\<close>

definition read_fields :: "pydict \<Rightarrow> error + bert_fields" where
  "read_fields params =
     bind_err (getitem params ''model_id'') (\<lambda>v1.
     bind_err (getitem params ''dataset_id'') (\<lambda>v2.
     bind_err (getitem params ''batch_size'') (\<lambda>v3.
     bind_err (getitem params ''learning_rate'') (\<lambda>v4.
     bind_err (getitem params ''freeze_bert'') (\<lambda>v5.
     bind_err (getitem params ''freeze_bert_encoder'') (\<lambda>v6.
     bind_err (getitem params ''load_checkpoint_from'') (\<lambda>v7.
     bind_err (getitem params ''save_checkpoints'') (\<lambda>v8.
     bind_err (getitem params ''epochs'') (\<lambda>v9.
     bind_err (getitem params ''save_results'') (\<lambda>v10.
       Inr \<lparr>model_id = v1, dataset_id = v2, batch_size = v3, learning_rate = v4,
            freeze_bert = v5, freeze_bert_encoder = v6, load_checkpoint_from = v7,
            save_checkpoints = v8, epochs = v9, save_results = v10\<rparr>))))))))))"

text \<open>
  The rest of the constructor (lines 38 to 72: tokenizer and model download, results
  directory, checkpoint) is the work of external libraries and the file system: the
  parameter \<open>setup\<close>.
\<close>

definition BERT_init ::
  "(bert_fields \<Rightarrow> 'w \<Rightarrow> (error + 'b) \<times> 'w) \<Rightarrow> pydict \<Rightarrow> 'w \<Rightarrow> (error + 'b) \<times> 'w" where
  "BERT_init setup params w =
     (case read_fields params of
        Inl e \<Rightarrow> (Inl e, w)
      | Inr fs \<Rightarrow> setup fs w)"

section \<open>\<open>BERTTree\<close> (\<open>bert_tree.py\<close>)\<close>

text \<open>
  The attributes of a \<open>BERTTree\<close> object the methods read: the classifier list of
  \<open>params\<close> (absent when the caller's dictionary has no such key) and
  \<open>tokenized_dataset\<close>, which only \<open>load_data\<close> assigns. An example is the pair of its
  tokenized columns and its label.
\<close>

record ('x, 'c) bert_tree =
  classifiers :: "'c list option"
  tokenized_dataset :: "(string \<rightharpoonup> ('x \<times> int) list) option"

text \<open>
  \<open>load_data\<close>, lines 36 to 45. \<open>bert_load_data\<close> is \<open>BERT.load_data\<close> (it returns the
  raw splits of text and label), \<open>tokenizer\<close> the tokenizer call of the \<open>map\<close>.
\<close>

definition load_data ::
  "(bert_fields \<Rightarrow> 'w \<Rightarrow> (error + 'b) \<times> 'w) \<Rightarrow>
   ('b \<Rightarrow> 'w \<Rightarrow> (error + (string \<rightharpoonup> (string \<times> int) list)) \<times> 'w) \<Rightarrow>
   (string \<Rightarrow> 'x) \<Rightarrow> ('x, 'c) bert_tree \<Rightarrow> 'w \<Rightarrow>
   (error + unit) \<times> ('x, 'c) bert_tree \<times> 'w" where
  "load_data setup bert_load_data tokenizer self w =
     (case BERT_init setup bert_params w of
        (Inl e, w1) \<Rightarrow> (Inl e, self, w1)
      | (Inr bert, w1) \<Rightarrow>
          (case bert_load_data bert w1 of
             (Inl e, w2) \<Rightarrow> (Inl e, self, w2)
           | (Inr dataset, w2) \<Rightarrow>
               (Inr (),
                self\<lparr>tokenized_dataset :=
                  Some (\<lambda>split. map_option (map (\<lambda>(text, label). (tokenizer text, label)))
                                  (dataset split))\<rparr>,
                w2)))"

subsection \<open>The library calls of \<open>compute_features\<close>\<close>

text \<open>
  \<open>Dataset.shard(num_shards, index, contiguous)\<close> of the \<open>datasets\<close> library, after its
  documentation: it rejects an index outside \<open>[0, num_shards - 1]\<close>, computes the row
  indices of the shard and selects them. With \<open>contiguous\<close> the shard is a block, the
  first \<open>len mod num_shards\<close> shards one row longer than the others; without it the shard
  holds the rows whose index modulo \<open>num_shards\<close> is \<open>index\<close>.
\<close>

definition shard_indices :: "nat \<Rightarrow> nat \<Rightarrow> bool \<Rightarrow> nat \<Rightarrow> nat list" where
  "shard_indices num_shards index contiguous len =
     (if contiguous then
        (let d = len div num_shards;
             m = len mod num_shards;
             start = d * index + min index m;
             stop = start + d + (if index < m then 1 else 0)
         in [start..<stop])
      else filter (\<lambda>j. j mod num_shards = index) [0..<len])"

text \<open>Where block \<open>i\<close> of a contiguous sharding of \<open>n\<close> rows into \<open>S\<close> shards starts.\<close>

definition block_start :: "nat \<Rightarrow> nat \<Rightarrow> nat \<Rightarrow> nat" where
  "block_start S n i = (n div S) * i + min i (n mod S)"

text \<open>
  The selection of a block checks the block's first index against the size of the
  dataset, so a contiguous shard without rows (its block starts at the end of the
  dataset) raises \<open>IndexError\<close>. A shard by modulo without rows is an empty dataset.
\<close>

definition shard :: "nat \<Rightarrow> nat \<Rightarrow> bool \<Rightarrow> 'e list \<Rightarrow> error + 'e list" where
  "shard num_shards index contiguous xs =
     (if index < num_shards then
        (if contiguous \<and> length xs \<le> block_start num_shards (length xs) index
         then Inl (IndexError (''Index '' @ digits (block_start num_shards (length xs) index)
                     @ '' out of range for dataset of size '' @ digits (length xs) @ ''.''))
         else Inr (map (nth xs) (shard_indices num_shards index contiguous (length xs))))
      else Inl (ValueError ''index should be in [0, num_shards-1]''))"

text \<open>
  \<open>to_tf_dataset(shuffle, batch_size = n)\<close>: the rows in batches of \<open>n\<close>, the last
  one shorter when the rows do not divide evenly; \<open>rnd\<close> is the permutation a shuffle
  would draw. The call reads a sample of the dataset to find the shape of its columns
  and raises on a dataset without rows.
\<close>

fun batches :: "nat \<Rightarrow> 'e list \<Rightarrow> 'e list list" where
  "batches n xs = (if n = 0 \<or> xs = [] then [] else take n xs # batches n (drop n xs))"

declare batches.simps [simp del]

definition to_tf_dataset ::
  "('e list \<Rightarrow> 'e list) \<Rightarrow> bool \<Rightarrow> nat \<Rightarrow> 'e list \<Rightarrow> error + 'e list list" where
  "to_tf_dataset rnd shuffle n xs =
     (if xs = []
      then Inl (ValueError ''Unable to get the output signature because the dataset is empty.'')
      else Inr (batches n (if shuffle then rnd xs else xs)))"

text \<open>
  \<open>bert_output.reshape(bert_output.shape[0], -1)\<close>, line 86: every example's output
  (tokens by hidden units) is flattened into one row. numpy cannot infer the \<open>-1\<close> of
  an array without rows and raises.
\<close>

definition reshape_rows :: "'a list list list \<Rightarrow> error + 'a list list" where
  "reshape_rows bert_output =
     (if bert_output = []
      then Inl (ValueError ''cannot reshape array of size 0 into shape (0,newaxis)'')
      else Inr (map concat bert_output))"

text \<open>
  \<open>np.concatenate(Xs)\<close>, line 89: the rows of the arrays, in list order. The arrays
  must agree in their number of columns: a row that is not as wide as the first one
  raises.
\<close>

definition np_concatenate :: "'a list list list \<Rightarrow> error + 'a list list" where
  "np_concatenate Xs =
     (if Xs = [] then Inl (ValueError ''need at least one array to concatenate'')
      else (case concat Xs of
              [] \<Rightarrow> Inr []
            | row # rows \<Rightarrow>
                if filter (\<lambda>r. length r \<noteq> length row) rows = [] then Inr (row # rows)
                else Inl (ValueError ''all the input array dimensions except for the concatenation axis must match exactly'')))"

text \<open>\<open>self.tokenized_dataset[dataset]\<close>: the attribute, then the split.\<close>

definition get_split :: "('x, 'c) bert_tree \<Rightarrow> string \<Rightarrow> error + ('x \<times> int) list" where
  "get_split self dataset =
     (case tokenized_dataset self of
        None \<Rightarrow> Inl (AttributeError ''tokenized_dataset'')
      | Some d \<Rightarrow> (case d dataset of None \<Rightarrow> Inl (KeyError dataset) | Some s \<Rightarrow> Inr s))"

subsection \<open>\<open>compute_features\<close>, lines 68 to 92\<close>

text \<open>
  The loop of lines 72 to 87 over the shard indices still to do, with the list \<open>Xs\<close>
  built so far. \<open>predict\<close> is \<open>self.model.predict(tf_shard)[0]\<close>, the encoder: it
  returns one block (tokens by hidden units) per example, or raises. Every call is
  logged with the dataset it was given.
\<close>

fun shard_loop ::
  "bool \<Rightarrow> nat \<Rightarrow> (('x \<times> int) list \<Rightarrow> ('x \<times> int) list) \<Rightarrow>
   (('x \<times> int) list list \<Rightarrow> error + 'a list list list) \<Rightarrow>
   ('x, 'c) bert_tree \<Rightarrow> string \<Rightarrow> nat list \<Rightarrow> 'a list list list \<Rightarrow> ('x, 'a) world \<Rightarrow>
   (error + 'a list list list) \<times> ('x, 'a) world" where
  "shard_loop contiguous S rnd predict self dataset [] Xs w = (Inr Xs, w)"
| "shard_loop contiguous S rnd predict self dataset (i # rest) Xs w =
     (case get_split self dataset of
        Inl e \<Rightarrow> (Inl e, w)
      | Inr split \<Rightarrow>
          (case shard S i contiguous split of
             Inl e \<Rightarrow> (Inl e, w)
           | Inr dataset_shard \<Rightarrow>
               (case to_tf_dataset rnd False 32 dataset_shard of
                  Inl e \<Rightarrow> (Inl e, w)
                | Inr tf_shard \<Rightarrow>
                    (let w1 = w\<lparr>predict_calls := predict_calls w @ [tf_shard]\<rparr>
                     in case predict tf_shard of
                          Inl e \<Rightarrow> (Inl e, w1)
                        | Inr bert_output \<Rightarrow>
                            (case reshape_rows bert_output of
                               Inl e \<Rightarrow> (Inl e, w1)
                             | Inr X \<Rightarrow>
                                 shard_loop contiguous S rnd predict self dataset rest
                                   (Xs @ [X]) w1)))))"

text \<open>
  The body of the method for a shard count \<open>S\<close>. The call of line 73 passes
  \<open>num_shards\<close> and \<open>index\<close> only, so \<open>contiguous\<close> is the default of the installed
  \<open>datasets\<close> library: \<open>False\<close> in the releases before 3.0, which the repository was
  written against, \<open>True\<close> from 3.0 on. It is a parameter of the model.
\<close>

definition compute_features_with ::
  "bool \<Rightarrow> nat \<Rightarrow> (('x \<times> int) list \<Rightarrow> ('x \<times> int) list) \<Rightarrow>
   (('x \<times> int) list list \<Rightarrow> error + 'a list list list) \<Rightarrow>
   ('x, 'c) bert_tree \<Rightarrow> string \<Rightarrow> ('x, 'a) world \<Rightarrow>
   (error + 'a ndarray \<times> 'a ndarray) \<times> ('x, 'a) world" where
  "compute_features_with contiguous S rnd predict self dataset w =
     (case shard_loop contiguous S rnd predict self dataset [0..<S] [] w of
        (Inl e, w1) \<Rightarrow> (Inl e, w1)
      | (Inr Xs, w1) \<Rightarrow>
          (case np_concatenate Xs of
             Inl e \<Rightarrow> (Inl e, w1)
           | Inr X \<Rightarrow>
               (case get_split self dataset of
                  Inl e \<Rightarrow> (Inl e, w1)
                | Inr split \<Rightarrow> (Inr (Matrix X, Vector (map snd split)), w1))))"

definition SHARDS :: nat where
  "SHARDS = 10"

text \<open>The method as written: line 70 fixes the shard count.\<close>

definition compute_features ::
  "bool \<Rightarrow> (('x \<times> int) list \<Rightarrow> ('x \<times> int) list) \<Rightarrow>
   (('x \<times> int) list list \<Rightarrow> error + 'a list list list) \<Rightarrow>
   ('x, 'c) bert_tree \<Rightarrow> string \<Rightarrow> ('x, 'a) world \<Rightarrow>
   (error + 'a ndarray \<times> 'a ndarray) \<times> ('x, 'a) world" where
  "compute_features contiguous = compute_features_with contiguous SHARDS"

subsection \<open>The feature cache: \<open>generate_features\<close> and \<open>train\<close>\<close>

text \<open>
  \<open>with open(os.path.join('data', name), 'wb') as f: pickle.dump(v, f)\<close>, as in lines
  100 to 104. The argument of \<open>open\<close> is evaluated first, and it loads the global \<open>os\<close>.
  The directory \<open>data\<close> is taken to exist.
\<close>

definition dump_to_data :: "string \<Rightarrow> 'a ndarray \<Rightarrow> ('x, 'a) world \<Rightarrow> (error + unit) \<times> ('x, 'a) world" where
  "dump_to_data name v w =
     (case load_global ''os'' of
        Inl e \<Rightarrow> (Inl e, w)
      | Inr _ \<Rightarrow> (Inr (), w\<lparr>files := (files w)(os_path_join ''data'' name \<mapsto> v)\<rparr>))"

text \<open>
  \<open>with open(os.path.join('data', name), 'rb') as f: v = pickle.load(f)\<close>, as in lines
  110 to 115. Whatever array the file holds is returned; nothing checks its shape.
\<close>

definition load_from_data :: "string \<Rightarrow> ('x, 'a) world \<Rightarrow> (error + 'a ndarray) \<times> ('x, 'a) world" where
  "load_from_data name w =
     (case load_global ''os'' of
        Inl e \<Rightarrow> (Inl e, w)
      | Inr _ \<Rightarrow>
          (case files w (os_path_join ''data'' name) of
             None \<Rightarrow> (Inl (FileNotFoundError (os_path_join ''data'' name)), w)
           | Some v \<Rightarrow> (Inr v, w)))"

text \<open>\<open>name in os.listdir('data')\<close>, line 109.\<close>

definition in_listdir :: "string \<Rightarrow> ('x, 'a) world \<Rightarrow> error + bool" where
  "in_listdir name w =
     (case load_global ''os'' of
        Inl e \<Rightarrow> Inl e
      | Inr _ \<Rightarrow> Inr (files w (os_path_join ''data'' name) \<noteq> None))"

text \<open>\<open>generate_features\<close>, lines 94 to 104.\<close>

definition generate_features ::
  "bool \<Rightarrow> (('x \<times> int) list \<Rightarrow> ('x \<times> int) list) \<Rightarrow>
   (('x \<times> int) list list \<Rightarrow> error + 'a list list list) \<Rightarrow>
   ('x, 'c) bert_tree \<Rightarrow> string \<Rightarrow> ('x, 'a) world \<Rightarrow> (error + unit) \<times> ('x, 'a) world" where
  "generate_features contiguous rnd predict self dataset w =
     (case compute_features contiguous rnd predict self dataset w of
        (Inl e, w1) \<Rightarrow> (Inl e, w1)
      | (Inr (X, y), w1) \<Rightarrow>
          (case bind_err (getitem bert_params ''model'')
                  (\<lambda>m. bind_err (str_split m CHR ''/'') py_last) of
             Inl e \<Rightarrow> (Inl e, w1)
           | Inr model_name \<Rightarrow>
               (case getitem bert_params ''dataset'' of
                  Inl e \<Rightarrow> (Inl e, w1)
                | Inr d \<Rightarrow>
                    (let identifier = dataset @ ''_'' @ py_str d @ ''_'' @ model_name
                     in case dump_to_data (''X_feat_'' @ identifier @ ''.pkl'') X w1 of
                          (Inl e, w2) \<Rightarrow> (Inl e, w2)
                        | (Inr _, w2) \<Rightarrow>
                            dump_to_data (''y_'' @ identifier @ ''.pkl'') y w2))))"

text \<open>
  The loop of lines 119 to 121 over the classifiers still to fit, \<open>fitted\<close> being those
  already passed. \<open>fit\<close> is \<open>clf.fit(X_train, y_train)\<close>: it changes the classifier in
  place and may raise, which ends the loop with the remaining classifiers untouched.
\<close>

fun fit_loop ::
  "('c \<Rightarrow> 'a ndarray \<Rightarrow> 'a ndarray \<Rightarrow> (error + unit) \<times> 'c) \<Rightarrow>
   'c list \<Rightarrow> 'a ndarray \<Rightarrow> 'a ndarray \<Rightarrow> 'c list \<Rightarrow> (error + unit) \<times> 'c list" where
  "fit_loop fit [] X_train y_train fitted = (Inr (), fitted)"
| "fit_loop fit (clf # rest) X_train y_train fitted =
     (case fit clf X_train y_train of
        (Inl e, clf') \<Rightarrow> (Inl e, fitted @ clf' # rest)
      | (Inr _, clf') \<Rightarrow> fit_loop fit rest X_train y_train (fitted @ [clf']))"

text \<open>
  \<open>train\<close>, lines 106 to 121. The file names of the cache lookup are those
  \<open>generate_features\<close> writes for the split \<open>train\<close>. Line 108 formats \<open>bert_params["dataset"]\<close> and then the
  name \<open>model_name\<close>, which \<open>train\<close> never assigns: a global load.
\<close>

definition train ::
  "bool \<Rightarrow> (('x \<times> int) list \<Rightarrow> ('x \<times> int) list) \<Rightarrow>
   (('x \<times> int) list list \<Rightarrow> error + 'a list list list) \<Rightarrow>
   ('c \<Rightarrow> 'a ndarray \<Rightarrow> 'a ndarray \<Rightarrow> (error + unit) \<times> 'c) \<Rightarrow>
   ('x, 'c) bert_tree \<Rightarrow> ('x, 'a) world \<Rightarrow>
   (error + unit) \<times> ('x, 'c) bert_tree \<times> ('x, 'a) world" where
  "train contiguous rnd predict fit self w =
     (case bind_err (getitem bert_params ''dataset'')
             (\<lambda>d. bind_err (load_global ''model_name'')
                (\<lambda>model_name. Inr (py_str d @ ''_'' @ obj_str model_name))) of
        Inl e \<Rightarrow> (Inl e, self, w)
      | Inr identifier \<Rightarrow>
          (case (case in_listdir (''X_feat_train_'' @ identifier @ ''.pkl'') w of
                   Inl e \<Rightarrow> (Inl e, w)
                 | Inr cached \<Rightarrow>
                     if cached then
                       (case load_from_data (''X_feat_train_'' @ identifier @ ''.pkl'') w of
                          (Inl e, w1) \<Rightarrow> (Inl e, w1)
                        | (Inr X_train, w1) \<Rightarrow>
                            (case load_from_data (''y_train_'' @ identifier @ ''.pkl'') w1 of
                               (Inl e, w2) \<Rightarrow> (Inl e, w2)
                             | (Inr y_train, w2) \<Rightarrow> (Inr (X_train, y_train), w2)))
                     else compute_features contiguous rnd predict self ''train'' w) of
             (Inl e, w1) \<Rightarrow> (Inl e, self, w1)
           | (Inr (X_train, y_train), w1) \<Rightarrow>
               (case classifiers self of
                  None \<Rightarrow> (Inl (KeyError ''classifiers''), self, w1)
                | Some clfs \<Rightarrow>
                    (case fit_loop fit clfs X_train y_train [] of
                       (r, clfs') \<Rightarrow> (r, self\<lparr>classifiers := Some clfs'\<rparr>, w1)))))"

section \<open>Auxiliary notions and test data\<close>

text \<open>The batched dataset that iteration \<open>i\<close> of the loop hands to the encoder.\<close>

definition tf_shard_of :: "bool \<Rightarrow> nat \<Rightarrow> 'e list \<Rightarrow> nat \<Rightarrow> 'e list list" where
  "tf_shard_of contiguous S split i =
     batches 32 (map (nth split) (shard_indices S i contiguous (length split)))"

text \<open>
  A stub encoder: the output block of an example is one token with one hidden unit,
  which holds the example's text. A second one fails on every batch that holds the
  text \<open>e3\<close>.
\<close>

definition stub_encode :: "(string \<times> int) list list \<Rightarrow> string list list list" where
  "stub_encode tf_shard = map (\<lambda>(x, l). [[x]]) (concat tf_shard)"

definition stub_predict :: "(string \<times> int) list list \<Rightarrow> error + string list list list" where
  "stub_predict tf_shard = Inr (stub_encode tf_shard)"

definition failing_predict :: "(string \<times> int) list list \<Rightarrow> error + string list list list" where
  "failing_predict tf_shard =
     (if ''e3'' \<in> fst ` set (concat tf_shard) then Inl (RuntimeError ''resource exhausted'')
      else stub_predict tf_shard)"

text \<open>
  A stub classifier is its name with the number of times it was fitted; the one named
  \<open>bad\<close> raises and stays as it was.
\<close>

definition stub_fit ::
  "string \<times> nat \<Rightarrow> string ndarray \<Rightarrow> string ndarray \<Rightarrow> (error + unit) \<times> (string \<times> nat)" where
  "stub_fit clf X y =
     (if fst clf = ''bad'' then (Inl (ValueError ''fit failed''), clf)
      else (Inr (), (fst clf, Suc (snd clf))))"

definition split4 :: "(string \<times> int) list" where
  "split4 = [(''a'', 0), (''b'', 1), (''c'', 0), (''d'', 1)]"

definition split11 :: "(string \<times> int) list" where
  "split11 =
     [(''e0'', 0), (''e1'', 1), (''e2'', 0), (''e3'', 1), (''e4'', 0), (''e5'', 1),
      (''e6'', 0), (''e7'', 1), (''e8'', 0), (''e9'', 1), (''e10'', 0)]"

definition tree_of :: "(string \<times> int) list \<Rightarrow> (string, string \<times> nat) bert_tree" where
  "tree_of split =
     \<lparr>classifiers = Some [(''extra_trees'', 0), (''random_forest'', 0)],
      tokenized_dataset = Some [''train'' \<mapsto> split]\<rparr>"

definition unloaded_tree :: "(string, string \<times> nat) bert_tree" where
  "unloaded_tree = \<lparr>classifiers = Some [], tokenized_dataset = None\<rparr>"

definition world0 :: "(string, string) world" where
  "world0 = \<lparr>files = Map.empty, predict_calls = []\<rparr>"

section \<open>Configuration keys\<close>

lemma read_fields_bert_params: "read_fields bert_params = Inl (KeyError ''model_id'')"
  by (simp add: read_fields_def bert_params_def getitem_def bind_err_def)

text \<open>
  C10. The module-level \<open>bert_params\<close> has the keys \<open>model\<close>, \<open>dataset\<close>,
  \<open>freeze_base_layer\<close> and \<open>load_checkpoint\<close> and none of \<open>model_id\<close>, \<open>dataset_id\<close>,
  \<open>freeze_bert\<close>, \<open>freeze_bert_encoder\<close>, \<open>load_checkpoint_from\<close>, which \<open>BERT.__init__\<close>
  reads. Every call of \<open>BERTTree.load_data\<close> therefore raises \<open>KeyError\<close> at the first
  read, whatever the model setup, the dataset loader and the tokenizer are: neither of
  them runs, the object and the world are as before.
\<close>

theorem load_data_raises_KeyError:
  "set [''model'', ''dataset'', ''freeze_base_layer'', ''load_checkpoint'']
     \<subseteq> fst ` set bert_params
   \<and> set [''model_id'', ''dataset_id'', ''freeze_bert'', ''freeze_bert_encoder'',
          ''load_checkpoint_from''] \<inter> fst ` set bert_params = {}
   \<and> load_data setup bert_load_data tokenizer self w = (Inl (KeyError ''model_id''), self, w)"
  by (simp add: load_data_def BERT_init_def read_fields_bert_params) (simp add: bert_params_def)

section \<open>Auxiliary lemmas\<close>

lemma load_global_os: "load_global ''os'' = Inl (NameError ''os'')"
  by (simp add: load_global_def module_globals_def builtins_def)

lemma load_global_model_name: "load_global ''model_name'' = Inl (NameError ''model_name'')"
  by (simp add: load_global_def module_globals_def builtins_def)

lemma getitem_dataset: "getitem bert_params ''dataset'' = Inr (PStr ''small'')"
  by (simp add: getitem_def bert_params_def)

lemma train_raises:
  "train c rnd predict fit self w = (Inl (NameError ''model_name''), self, w)"
  by (simp add: train_def getitem_dataset load_global_model_name bind_err_def)

lemma dump_to_data_raises: "dump_to_data name v w = (Inl (NameError ''os''), w)"
  by (simp add: dump_to_data_def load_global_os)

lemma concat_batches: "0 < n \<Longrightarrow> concat (batches n xs) = xs"
proof (induction n xs rule: batches.induct)
  case (1 n xs)
  then show ?case by (subst batches.simps) auto
qed

lemma batches_Nil_iff: "0 < n \<Longrightarrow> batches n xs = [] \<longleftrightarrow> xs = []"
  by (subst batches.simps) auto

lemma mset_residues:
  "mset (concat (map (\<lambda>i. filter (\<lambda>j. g j = i) xs) [0..<k])) = mset (filter (\<lambda>j. g j < k) xs)"
proof (induction k)
  case 0
  then show ?case by simp
next
  case (Suc k)
  have "mset (filter (\<lambda>j. g j < k) xs) + mset (filter (\<lambda>j. g j = k) xs)
        = mset (filter (\<lambda>j. g j < Suc k) xs)"
    by (induction xs) auto
  with Suc show ?case by simp
qed

lemma concat_blocks:
  "(\<And>i. i < k \<Longrightarrow> f i \<le> f (Suc i)) \<Longrightarrow> concat (map (\<lambda>i. [f i..<f (Suc i)]) [0..<k]) = [f 0..<f k]"
proof (induction k)
  case 0
  then show ?case by simp
next
  case (Suc k)
  have mono: "f 0 \<le> f k" using Suc.prems
  proof (induction k)
    case 0 then show ?case by simp
  next
    case (Suc k) 
    then have "f 0 \<le> f k" by simp
    moreover have "f k \<le> f (Suc k)" using Suc.prems by simp
    ultimately show ?case by simp
  qed
  have "f k \<le> f (Suc k)" using Suc.prems by simp
  with mono have "[f 0..<f k] @ [f k..<f (Suc k)] = [f 0..<f (Suc k)]"
    by (metis le_Suc_ex upt_add_eq_append)
  with Suc show ?case by simp
qed

lemma shard_indices_contiguous:
  "shard_indices S i True n = [block_start S n i..<block_start S n (Suc i)]"
proof -
  have "block_start S n i + n div S + (if i < n mod S then 1 else 0) = block_start S n (Suc i)"
    by (simp add: block_start_def min_def)
  then show ?thesis
    by (simp add: shard_indices_def Let_def block_start_def [symmetric])
qed

lemma concat_contiguous:
  assumes "0 < S"
  shows "concat (map (\<lambda>i. shard_indices S i True n) [0..<S]) = [0..<n]"
proof -
  have "concat (map (\<lambda>i. [block_start S n i..<block_start S n (Suc i)]) [0..<S])
        = [block_start S n 0..<block_start S n S]"
    by (rule concat_blocks) (auto simp: block_start_def min_def)
  moreover have "block_start S n 0 = 0" by (simp add: block_start_def)
  moreover have "block_start S n S = n"
  proof -
    have "n mod S < S" using assms by simp
    then have "min S (n mod S) = n mod S" by simp
    then show ?thesis by (simp add: block_start_def)
  qed
  ultimately show ?thesis by (simp add: shard_indices_contiguous)
qed

lemma mset_strided:
  assumes "0 < S"
  shows "mset (concat (map (\<lambda>i. shard_indices S i False n) [0..<S])) = mset [0..<n]"
proof -
  have "mset (concat (map (\<lambda>i. filter (\<lambda>j. j mod S = i) [0..<n]) [0..<S]))
        = mset (filter (\<lambda>j. j mod S < S) [0..<n])"
    by (rule mset_residues)
  then show ?thesis using assms by (simp add: shard_indices_def)
qed

lemma mset_shards:
  "0 < S \<Longrightarrow> mset (concat (map (\<lambda>i. shard_indices S i c n) [0..<S])) = mset [0..<n]"
  by (cases c) (simp_all add: concat_contiguous mset_strided)

lemma shard_indices_nonempty:
  assumes "i < S" "S \<le> n"
  shows "shard_indices S i c n \<noteq> []"
proof (cases c)
  case True
  have "0 < n div S" using assms by (simp add: div_greater_zero_iff)
  then show ?thesis using True by (simp add: shard_indices_def Let_def)
next
  case False
  have "i \<in> set (filter (\<lambda>j. j mod S = i) [0..<n])" using assms by simp
  then show ?thesis using False by (auto simp: shard_indices_def simp del: set_filter)
qed

lemma shard_loop_rnd:
  "shard_loop c S rnd1 predict self ds js Xs w = shard_loop c S rnd2 predict self ds js Xs w"
proof (induction js arbitrary: Xs w)
  case Nil
  show ?case by simp
next
  case (Cons i js)
  have tf: "\<And>xs. to_tf_dataset rnd1 False 32 xs = to_tf_dataset rnd2 False 32 xs"
    by (simp add: to_tf_dataset_def)
  show ?case by (simp add: tf Cons.IH Let_def split: sum.split)
qed

lemma shard_loop_files: "files (snd (shard_loop c S rnd predict self ds js Xs w)) = files w"
proof (induction js arbitrary: Xs w)
  case Nil
  show ?case by simp
next
  case (Cons i js)
  show ?case by (simp add: Cons.IH Let_def split: sum.split)
qed

lemma compute_features_with_files:
  "files (snd (compute_features_with c S rnd predict self ds w)) = files w"
proof -
  obtain r w1 where loop: "shard_loop c S rnd predict self ds [0..<S] [] w = (r, w1)"
    by (cases "shard_loop c S rnd predict self ds [0..<S] [] w")
  have "files w1 = files w" using shard_loop_files [of c S rnd predict self ds "[0..<S]" "[]" w] loop
    by simp
  then show ?thesis
    by (simp add: compute_features_with_def loop split: sum.splits)
qed

lemma block_start_le:
  assumes "0 < S" "j \<le> S"
  shows "block_start S n j \<le> n"
proof -
  have "(n div S) * j \<le> (n div S) * S" using assms by simp
  moreover have "min j (n mod S) \<le> n mod S" by simp
  moreover have "(n div S) * S + n mod S = n" by simp
  ultimately show ?thesis unfolding block_start_def by linarith
qed

lemma block_nonempty_start:
  assumes "i < S" "shard_indices S i True n \<noteq> []"
  shows "block_start S n i < n"
proof -
  have "block_start S n i < block_start S n (Suc i)"
    using assms(2) by (simp add: shard_indices_contiguous)
  moreover have "block_start S n (Suc i) \<le> n"
    using assms(1) by (intro block_start_le) simp_all
  ultimately show ?thesis by simp
qed

lemma shard_ok:
  assumes "i < S" "shard_indices S i c (length split) \<noteq> []"
  shows "shard S i c split = Inr (map (nth split) (shard_indices S i c (length split)))"
proof (cases c)
  case True
  have "shard_indices S i True (length split) \<noteq> []" using assms(2) True by simp
  with assms(1) have "block_start S (length split) i < length split"
    by (rule block_nonempty_start)
  then show ?thesis using assms(1) by (simp add: shard_def)
next
  case False
  then show ?thesis using assms(1) by (simp add: shard_def)
qed

lemma to_tf_dataset_ok: "xs \<noteq> [] \<Longrightarrow> to_tf_dataset rnd False n xs = Inr (batches n xs)"
  by (simp add: to_tf_dataset_def)

lemma np_concatenate_ok:
  assumes "Xs \<noteq> []" and "\<And>r. r \<in> set (concat Xs) \<Longrightarrow> length r = d"
  shows "np_concatenate Xs = Inr (concat Xs)"
proof (cases "concat Xs")
  case Nil
  show ?thesis using assms(1) unfolding np_concatenate_def Nil by simp
next
  case (Cons row rows)
  have "length row = d" using assms(2) Cons by simp
  moreover have "\<And>r. r \<in> set rows \<Longrightarrow> length r = d" using assms(2) Cons by simp
  ultimately have "filter (\<lambda>r. length r \<noteq> length row) rows = []"
    by (simp add: filter_empty_conv)
  then show ?thesis using assms(1) unfolding np_concatenate_def Cons by simp
qed

lemma shard_loop_ok:
  assumes gs: "get_split self ds = Inr split"
    and pred: "\<And>i. i \<in> set js \<Longrightarrow> predict (tf_shard_of c S split i) = Inr (out i)"
    and len: "\<And>i. i \<in> set js \<Longrightarrow> length (out i) = length (concat (tf_shard_of c S split i))"
    and js: "\<And>i. i \<in> set js \<Longrightarrow> i < S \<and> shard_indices S i c (length split) \<noteq> []"
  shows "shard_loop c S rnd predict self ds js Xs w =
           (Inr (Xs @ map (\<lambda>i. map concat (out i)) js),
            w\<lparr>predict_calls := predict_calls w @ map (tf_shard_of c S split) js\<rparr>)"
  using pred len js
proof (induction js arbitrary: Xs w)
  case Nil
  then show ?case by simp
next
  case (Cons i js)
  have i: "i < S" and ne: "shard_indices S i c (length split) \<noteq> []"
    using Cons.prems(3) [of i] by simp_all
  have rows: "map (nth split) (shard_indices S i c (length split)) \<noteq> []" using ne by simp
  have "length (out i) = length (shard_indices S i c (length split))"
    using Cons.prems(2) [of i] by (simp add: tf_shard_of_def concat_batches)
  with ne have out: "out i \<noteq> []" by auto
  have p: "predict (tf_shard_of c S split i) = Inr (out i)"
    using Cons.prems(1) [of i] by simp
  have IH: "\<And>Xs w. shard_loop c S rnd predict self ds js Xs w =
           (Inr (Xs @ map (\<lambda>i. map concat (out i)) js),
            w\<lparr>predict_calls := predict_calls w @ map (tf_shard_of c S split) js\<rparr>)"
    using Cons.prems by (intro Cons.IH) simp_all
  show ?case
    using out
    by (simp add: gs shard_ok [OF i ne] to_tf_dataset_ok [OF rows] p reshape_rows_def Let_def
        tf_shard_of_def [symmetric] IH)
qed

lemma compute_features_with_ok:
  assumes gs: "get_split self ds = Inr split"
    and pred: "\<And>i. i < S \<Longrightarrow> predict (tf_shard_of c S split i) = Inr (out i)"
    and len: "\<And>i. i < S \<Longrightarrow> length (out i) = length (concat (tf_shard_of c S split i))"
    and width: "\<And>i block. i < S \<Longrightarrow> block \<in> set (out i) \<Longrightarrow> length (concat block) = d"
    and S: "0 < S" "S \<le> length split"
  shows "compute_features_with c S rnd predict self ds w =
           (Inr (Matrix (concat (map (\<lambda>i. map concat (out i)) [0..<S])),
                 Vector (map snd split)),
            w\<lparr>predict_calls := predict_calls w @ map (tf_shard_of c S split) [0..<S]\<rparr>)"
proof -
  have js: "\<And>i. i \<in> set [0..<S] \<Longrightarrow> i < S \<and> shard_indices S i c (length split) \<noteq> []"
    using S by (simp add: shard_indices_nonempty)
  have pred': "\<And>i. i \<in> set [0..<S] \<Longrightarrow> predict (tf_shard_of c S split i) = Inr (out i)"
    using pred by simp
  have len': "\<And>i. i \<in> set [0..<S] \<Longrightarrow> length (out i) = length (concat (tf_shard_of c S split i))"
    using len by simp
  have loop: "shard_loop c S rnd predict self ds [0..<S] [] w =
           (Inr ([] @ map (\<lambda>i. map concat (out i)) [0..<S]),
            w\<lparr>predict_calls := predict_calls w @ map (tf_shard_of c S split) [0..<S]\<rparr>)"
    using gs pred' len' js by (rule shard_loop_ok)
  have ne: "map (\<lambda>i. map concat (out i)) [0..<S] \<noteq> []" using S by simp
  have "\<And>r. r \<in> set (concat (map (\<lambda>i. map concat (out i)) [0..<S])) \<Longrightarrow> length r = d"
    using width by auto
  with ne have "np_concatenate (map (\<lambda>i. map concat (out i)) [0..<S]) =
                  Inr (concat (map (\<lambda>i. map concat (out i)) [0..<S]))"
    by (rule np_concatenate_ok)
  then show ?thesis
    by (simp add: compute_features_with_def loop gs)
qed

lemma concat_tf_shard_of:
  "concat (tf_shard_of c S split i) = map (nth split) (shard_indices S i c (length split))"
  by (simp add: tf_shard_of_def concat_batches)

lemma concat_concat_map: "concat (concat (map f xs)) = concat (map (\<lambda>i. concat (f i)) xs)"
  by (induction xs) simp_all

lemma concat_map_map: "concat (map (\<lambda>i. map f (g i)) xs) = map f (concat (map g xs))"
  by (induction xs) simp_all

lemma mset_all_shards:
  assumes "0 < S"
  shows "mset (concat (concat (map (tf_shard_of c S split) [0..<S]))) = mset split"
proof -
  have "concat (concat (map (tf_shard_of c S split) [0..<S]))
        = concat (map (\<lambda>i. map (nth split) (shard_indices S i c (length split))) [0..<S])"
    by (simp add: concat_concat_map concat_tf_shard_of)
  also have "\<dots> = map (nth split) (concat (map (\<lambda>i. shard_indices S i c (length split)) [0..<S]))"
    by (rule concat_map_map)
  finally have "mset (concat (concat (map (tf_shard_of c S split) [0..<S])))
        = image_mset (nth split) (mset (concat (map (\<lambda>i. shard_indices S i c (length split)) [0..<S])))"
    by simp
  also have "\<dots> = image_mset (nth split) (mset [0..<length split])"
    using assms by (simp only: mset_shards)
  also have "\<dots> = mset (map (nth split) [0..<length split])" by simp
  also have "\<dots> = mset split" by (simp only: map_nth)
  finally show ?thesis .
qed

lemma length_concat_sum: "length (concat xss) = sum_list (map length xss)"
  by (induction xss) simp_all

lemma length_all_rows:
  assumes len: "\<And>i. i < S \<Longrightarrow> length (out i) = length (concat (tf_shard_of c S split i))"
    and S: "0 < S"
  shows "length (concat (map (\<lambda>i. map concat (out i)) [0..<S])) = length split"
proof -
  have eq: "map (\<lambda>i. length (out i)) [0..<S] = map (\<lambda>i. length (concat (tf_shard_of c S split i))) [0..<S]"
    using len by simp
  have "length (concat (map (\<lambda>i. map concat (out i)) [0..<S]))
        = sum_list (map (\<lambda>i. length (out i)) [0..<S])"
    by (simp add: length_concat_sum o_def)
  also have "\<dots> = sum_list (map (\<lambda>i. length (concat (tf_shard_of c S split i))) [0..<S])"
    by (simp only: eq)
  also have "\<dots> = length (concat (concat (map (tf_shard_of c S split) [0..<S])))"
    by (simp add: concat_concat_map length_concat_sum o_def)
  also have "\<dots> = size (mset (concat (concat (map (tf_shard_of c S split) [0..<S]))))"
    by simp
  also have "\<dots> = length split"
    by (simp only: mset_all_shards [OF S] size_mset)
  finally show ?thesis .
qed

lemma compute_features_contiguous_aligned:
  assumes gs: "get_split self ds = Inr split"
    and S: "SHARDS \<le> length split"
    and enc: "\<And>tf_shard. predict tf_shard = Inr (map emb (concat tf_shard))"
    and width: "\<And>x. length (concat (emb x)) = d"
  shows "fst (compute_features True rnd predict self ds w) =
           Inr (Matrix (map (\<lambda>x. concat (emb x)) split), Vector (map snd split))"
proof -
  have pos: "0 < SHARDS" by (simp add: SHARDS_def)
  let ?out = "\<lambda>i. map emb (concat (tf_shard_of True SHARDS split i))"
  have pred: "\<And>i. i < SHARDS \<Longrightarrow> predict (tf_shard_of True SHARDS split i) = Inr (?out i)"
    by (rule enc)
  have len: "\<And>i. i < SHARDS \<Longrightarrow> length (?out i) = length (concat (tf_shard_of True SHARDS split i))"
    by simp
  have w: "\<And>i block. i < SHARDS \<Longrightarrow> block \<in> set (?out i) \<Longrightarrow> length (concat block) = d"
    using width by auto
  have cf: "compute_features_with True SHARDS rnd predict self ds w =
           (Inr (Matrix (concat (map (\<lambda>i. map concat (?out i)) [0..<SHARDS])),
                 Vector (map snd split)),
            w\<lparr>predict_calls := predict_calls w @ map (tf_shard_of True SHARDS split) [0..<SHARDS]\<rparr>)"
    by (rule compute_features_with_ok [where out = ?out, OF gs pred len w pos S])
  have "concat (map (\<lambda>i. map concat (?out i)) [0..<SHARDS])
        = concat (map (\<lambda>i. map (\<lambda>j. concat (emb (split ! j))) (shard_indices SHARDS i True (length split))) [0..<SHARDS])"
    by (simp add: concat_tf_shard_of o_def)
  also have "\<dots> = map (\<lambda>j. concat (emb (split ! j)))
                     (concat (map (\<lambda>i. shard_indices SHARDS i True (length split)) [0..<SHARDS]))"
    by (rule concat_map_map)
  also have "\<dots> = map (\<lambda>j. concat (emb (split ! j))) [0..<length split]"
    by (simp only: concat_contiguous [OF pos])
  also have "\<dots> = map (\<lambda>x. concat (emb x)) (map (nth split) [0..<length split])"
    by (simp add: o_def)
  also have "\<dots> = map (\<lambda>x. concat (emb x)) split"
    by (simp only: map_nth)
  finally have X: "concat (map (\<lambda>i. map concat (?out i)) [0..<SHARDS]) =
      map (\<lambda>x. concat (emb x)) split" .
  show ?thesis unfolding compute_features_def cf X by simp
qed

lemma fst_shard_loop_world:
  "fst (shard_loop c S rnd1 predict self ds js Xs w1) = fst (shard_loop c S rnd2 predict self ds js Xs w2)"
proof (induction js arbitrary: Xs w1 w2)
  case Nil
  show ?case by simp
next
  case (Cons i js)
  have tf: "\<And>xs. to_tf_dataset rnd1 False 32 xs = to_tf_dataset rnd2 False 32 xs"
    by (simp add: to_tf_dataset_def)
  show ?case
    by (simp add: tf Let_def split: sum.split) (intro allI impI conjI Cons.IH)
qed

lemma fst_compute_features_with_world:
  "fst (compute_features_with c S rnd1 predict self ds w1) = fst (compute_features_with c S rnd2 predict self ds w2)"
proof -
  obtain r1 v1 where l1: "shard_loop c S rnd1 predict self ds [0..<S] [] w1 = (r1, v1)"
    by (cases "shard_loop c S rnd1 predict self ds [0..<S] [] w1")
  obtain r2 v2 where l2: "shard_loop c S rnd2 predict self ds [0..<S] [] w2 = (r2, v2)"
    by (cases "shard_loop c S rnd2 predict self ds [0..<S] [] w2")
  have "r1 = r2"
    using fst_shard_loop_world [of c S rnd1 predict self ds "[0..<S]" "[]" w1 rnd2 w2] l1 l2
    by simp
  then show ?thesis
    by (simp add: compute_features_with_def l1 l2 split: sum.splits)
qed

lemma shard_loop_fails:
  assumes gs: "get_split self ds = Inr split"
    and fail: "predict (tf_shard_of c S split k) = Inl e"
  shows "k \<in> set js \<Longrightarrow> (\<And>i. i \<in> set js \<Longrightarrow> i < S) \<Longrightarrow>
         \<exists>e' n. n \<le> Suc (length (takeWhile (\<lambda>i. i \<noteq> k) js)) \<and>
           shard_loop c S rnd predict self ds js Xs w =
             (Inl e', w\<lparr>predict_calls := predict_calls w @ map (tf_shard_of c S split) (take n js)\<rparr>)"
proof (induction js arbitrary: Xs w)
  case Nil
  then show ?case by simp
next
  case (Cons i js)
  have i: "i < S" using Cons.prems(2) [of i] by simp
  let ?tf = "tf_shard_of c S split i"
  let ?w1 = "w\<lparr>predict_calls := predict_calls w @ [?tf]\<rparr>"
  have early: "shard_loop c S rnd predict self ds (i # js) Xs w =
                 (Inl e1, w\<lparr>predict_calls := predict_calls w @ map (tf_shard_of c S split) (take 0 (i # js))\<rparr>)
               \<Longrightarrow> ?case" for e1
    by (intro exI [of _ e1] exI [of _ 0]) simp
  have once: "shard_loop c S rnd predict self ds (i # js) Xs w = (Inl e1, ?w1) \<Longrightarrow> ?case" for e1
    by (intro exI [of _ e1] exI [of _ "Suc 0"]) simp
  show ?case
  proof (cases "shard S i c split")
    case (Inl e1)
    have "shard_loop c S rnd predict self ds (i # js) Xs w = (Inl e1, w)"
      by (simp add: gs Inl)
    then show ?thesis by (intro early [of e1]) simp
  next
    case sh: (Inr rows)
    then have rows: "rows = map (nth split) (shard_indices S i c (length split))"
      using i by (auto simp: shard_def split: if_splits)
    show ?thesis
    proof (cases "rows = []")
      case True
      have "shard_loop c S rnd predict self ds (i # js) Xs w =
              (Inl (ValueError ''Unable to get the output signature because the dataset is empty.''), w)"
        by (simp add: gs sh to_tf_dataset_def True)
      then show ?thesis
        by (intro early [of "ValueError ''Unable to get the output signature because the dataset is empty.''"])
           simp
    next
      case False
      then have tf: "to_tf_dataset rnd False 32 rows = Inr ?tf"
        by (simp add: to_tf_dataset_def tf_shard_of_def rows)
      have step: "shard_loop c S rnd predict self ds (i # js) Xs w =
                (case predict ?tf of
                   Inl e \<Rightarrow> (Inl e, ?w1)
                 | Inr out \<Rightarrow>
                     (case reshape_rows out of
                        Inl e \<Rightarrow> (Inl e, ?w1)
                      | Inr X \<Rightarrow> shard_loop c S rnd predict self ds js (Xs @ [X]) ?w1))"
        by (simp add: gs sh tf Let_def)
      show ?thesis
      proof (cases "predict ?tf")
        case (Inl e1)
        have "shard_loop c S rnd predict self ds (i # js) Xs w = (Inl e1, ?w1)"
          unfolding step by (simp add: Inl)
        then show ?thesis by (rule once)
      next
        case (Inr out)
        then have ik: "i \<noteq> k" using fail by auto
        show ?thesis
        proof (cases "reshape_rows out")
          case (Inl e1)
          have "shard_loop c S rnd predict self ds (i # js) Xs w = (Inl e1, ?w1)"
            unfolding step by (simp add: Inr Inl)
          then show ?thesis by (rule once)
        next
          case X: (Inr X)
          have k: "k \<in> set js" using Cons.prems(1) ik by simp
          have rest: "\<And>j. j \<in> set js \<Longrightarrow> j < S" using Cons.prems(2) by simp
          obtain e' n where n: "n \<le> Suc (length (takeWhile (\<lambda>i. i \<noteq> k) js))"
            and loop: "shard_loop c S rnd predict self ds js (Xs @ [X]) ?w1 =
                         (Inl e', ?w1\<lparr>predict_calls := predict_calls ?w1 @ map (tf_shard_of c S split) (take n js)\<rparr>)"
            using Cons.IH [OF k rest, of "Xs @ [X]" ?w1] by blast
          have "shard_loop c S rnd predict self ds (i # js) Xs w =
                  (Inl e', w\<lparr>predict_calls := predict_calls w @ map (tf_shard_of c S split) (take (Suc n) (i # js))\<rparr>)"
            unfolding step by (simp add: Inr X loop)
          moreover have "Suc n \<le> Suc (length (takeWhile (\<lambda>i. i \<noteq> k) (i # js)))"
            using n ik by simp
          ultimately show ?thesis by blast
        qed
      qed
    qed
  qed
qed

lemma takeWhile_upt: "k < S \<Longrightarrow> takeWhile (\<lambda>i. i \<noteq> k) [0..<S] = [0..<k]"
proof -
  assume k: "k < S"
  have "[0..<S] = [0..<k] @ [k..<S]"
    using k by (metis le0 less_imp_le_nat le_Suc_ex upt_add_eq_append)
  then have "[0..<S] = [0..<k] @ k # [Suc k..<S]"
    using k by (simp add: upt_conv_Cons)
  moreover have "takeWhile (\<lambda>i. i \<noteq> k) ([0..<k] @ k # [Suc k..<S]) = [0..<k]"
    by (subst takeWhile_append2) auto
  ultimately show ?thesis by simp
qed

lemma compute_features_with_fails:
  assumes gs: "get_split self ds = Inr split"
    and k: "k < S"
    and fail: "predict (tf_shard_of c S split k) = Inl e"
  shows "\<exists>e' n. n \<le> Suc k \<and>
           compute_features_with c S rnd predict self ds w =
             (Inl e', w\<lparr>predict_calls := predict_calls w @ map (tf_shard_of c S split) [0..<n]\<rparr>)"
proof -
  have kin: "k \<in> set [0..<S]" using k by simp
  have all: "\<And>i. i \<in> set [0..<S] \<Longrightarrow> i < S" by simp
  have "\<exists>e' n. n \<le> Suc (length (takeWhile (\<lambda>i. i \<noteq> k) [0..<S])) \<and>
           shard_loop c S rnd predict self ds [0..<S] [] w =
             (Inl e', w\<lparr>predict_calls := predict_calls w @ map (tf_shard_of c S split) (take n [0..<S])\<rparr>)"
    using gs fail kin all by (rule shard_loop_fails)
  then obtain e' n where n: "n \<le> Suc (length (takeWhile (\<lambda>i. i \<noteq> k) [0..<S]))"
    and loop: "shard_loop c S rnd predict self ds [0..<S] [] w =
                 (Inl e', w\<lparr>predict_calls := predict_calls w @ map (tf_shard_of c S split) (take n [0..<S])\<rparr>)"
    by blast
  have nk: "n \<le> Suc k" using n by (simp add: takeWhile_upt [OF k])
  then have "take n [0..<S] = [0..<n]" using k by (simp add: take_upt)
  with loop have "compute_features_with c S rnd predict self ds w =
             (Inl e', w\<lparr>predict_calls := predict_calls w @ map (tf_shard_of c S split) [0..<n]\<rparr>)"
    by (simp add: compute_features_with_def)
  with nk show ?thesis by blast
qed

lemma getitem_model: "getitem bert_params ''model'' = Inr (PStr ''emilyalsentzer/Bio_ClinicalBERT'')"
  by (simp add: getitem_def bert_params_def)

lemma model_name: "bind_err (getitem bert_params ''model'') (\<lambda>m. bind_err (str_split m CHR ''/'') py_last) = Inr ''Bio_ClinicalBERT''"
  by (simp add: getitem_model bind_err_def str_split_def py_last_def)

lemma generate_features_eq:
  "generate_features c rnd predict self ds w =
     (case compute_features c rnd predict self ds w of
        (Inl e, w1) \<Rightarrow> (Inl e, w1)
      | (Inr v, w1) \<Rightarrow> (Inl (NameError ''os''), w1))"
  by (simp add: generate_features_def model_name getitem_dataset dump_to_data_raises
      split: prod.splits sum.splits)

lemma fit_loop_all:
  "(\<And>clf. clf \<in> set clfs \<Longrightarrow> fst (fit clf X y) = Inr ()) \<Longrightarrow>
   fit_loop fit clfs X y fitted = (Inr (), fitted @ map (\<lambda>clf. snd (fit clf X y)) clfs)"
proof (induction clfs arbitrary: fitted)
  case Nil
  then show ?case by simp
next
  case (Cons clf clfs)
  have "fst (fit clf X y) = Inr ()" using Cons.prems by simp
  then obtain clf' where "fit clf X y = (Inr (), clf')" by (cases "fit clf X y") auto
  then show ?case using Cons.IH Cons.prems by simp
qed

lemma fit_loop_first_error:
  "(\<And>clf. clf \<in> set pre \<Longrightarrow> fst (fit clf X y) = Inr ()) \<Longrightarrow> fst (fit bad X y) = Inl e \<Longrightarrow>
   fit_loop fit (pre @ bad # post) X y fitted =
     (Inl e, fitted @ map (\<lambda>clf. snd (fit clf X y)) pre @ snd (fit bad X y) # post)"
proof (induction pre arbitrary: fitted)
  case Nil
  then obtain bad' where "fit bad X y = (Inl e, bad')" by (cases "fit bad X y") auto
  then show ?case by simp
next
  case (Cons clf pre)
  have "fst (fit clf X y) = Inr ()" using Cons.prems by simp
  then obtain clf' where "fit clf X y = (Inr (), clf')" by (cases "fit clf X y") auto
  then show ?case using Cons.IH Cons.prems by simp
qed

lemma generate_features_files:
  "files (snd (generate_features c rnd predict self ds w)) = files w"
proof -
  obtain r w1 where cf: "compute_features c rnd predict self ds w = (r, w1)"
    by (cases "compute_features c rnd predict self ds w")
  have "files w1 = files w"
    using compute_features_with_files [of c SHARDS rnd predict self ds w] cf
    by (simp add: compute_features_def)
  then show ?thesis by (simp add: generate_features_eq cf split: sum.splits)
qed

lemma generate_features_isl: "isl (fst (generate_features c rnd predict self ds w))"
  by (simp add: generate_features_eq split: prod.splits sum.splits)

lemma generate_features_raises_os:
  "fst (compute_features c rnd predict self ds w) = Inr v \<Longrightarrow>
   fst (generate_features c rnd predict self ds w) = Inl (NameError ''os'')"
  by (cases "compute_features c rnd predict self ds w") (simp add: generate_features_eq)

lemma get_split_tree_of: "get_split (tree_of split) ''train'' = Inr split"
  by (simp add: get_split_def tree_of_def)

lemma fit_loop_stub:
  "fit_loop stub_fit [(''extra_trees'', 0), (''bad'', 0), (''random_forest'', 0)] X y [] =
     (Inl (ValueError ''fit failed''), [(''extra_trees'', 1), (''bad'', 0), (''random_forest'', 0)])"
  by (simp add: stub_fit_def)

section \<open>Sharded feature extraction\<close>

text \<open>
  C1. The claim: the split is cut into contiguous, order-preserving shards, so that row
  \<open>i\<close> of the feature matrix belongs to entry \<open>i\<close> of the label vector; for the split
  \<open>a, b, c, d\<close> and two shards the rows come out as \<open>a, b, c, d\<close>. What the method does
  when the library shards by index modulo the shard count (its default before
  \<open>datasets\<close> 3.0): for the eleven examples \<open>e0 .. e10\<close> the rows are those of
  \<open>e0, e10, e1, .. , e9\<close> while the labels stay in the order of the split, so row 1 is
  the row of \<open>e10\<close> (label 0) and is paired with the label 1 of \<open>e1\<close>; for the split
  \<open>a, b, c, d\<close> and two shards the rows are those of \<open>a, c, b, d\<close>. With contiguous
  sharding the rows are aligned (\<open>compute_features_contiguous_aligned\<close>).
\<close>

theorem compute_features_strided_misaligned:
  "fst (compute_features False id stub_predict (tree_of split11) ''train'' world0) =
     Inr (Matrix [[''e0''], [''e10''], [''e1''], [''e2''], [''e3''], [''e4''], [''e5''],
                  [''e6''], [''e7''], [''e8''], [''e9'']],
          Vector [0, 1, 0, 1, 0, 1, 0, 1, 0, 1, 0])
   \<and> fst (compute_features_with False 2 id stub_predict (tree_of split4) ''train'' world0) =
       Inr (Matrix [[''a''], [''c''], [''b''], [''d'']], Vector [0, 1, 0, 1])"
proof
  show "fst (compute_features False id stub_predict (tree_of split11) ''train'' world0) =
     Inr (Matrix [[''e0''], [''e10''], [''e1''], [''e2''], [''e3''], [''e4''], [''e5''],
                  [''e6''], [''e7''], [''e8''], [''e9'']],
          Vector [0, 1, 0, 1, 0, 1, 0, 1, 0, 1, 0])"
    by code_simp
  show "fst (compute_features_with False 2 id stub_predict (tree_of split4) ''train'' world0) =
       Inr (Matrix [[''a''], [''c''], [''b''], [''d'']], Vector [0, 1, 0, 1])"
    by code_simp
qed

text \<open>
  C2. The claim: one shard and ten shards give the same feature matrix. With sharding by
  index modulo the shard count they do not: for the eleven examples \<open>e0 .. e10\<close> one
  shard keeps the order of the split, ten shards put the row of \<open>e10\<close> second.
\<close>

theorem shard_count_changes_row_order:
  "fst (compute_features_with False 1 id stub_predict (tree_of split11) ''train'' world0) =
     Inr (Matrix [[''e0''], [''e1''], [''e2''], [''e3''], [''e4''], [''e5''], [''e6''],
                  [''e7''], [''e8''], [''e9''], [''e10'']],
          Vector [0, 1, 0, 1, 0, 1, 0, 1, 0, 1, 0])
   \<and> fst (compute_features_with False 10 id stub_predict (tree_of split11) ''train'' world0) =
       Inr (Matrix [[''e0''], [''e10''], [''e1''], [''e2''], [''e3''], [''e4''], [''e5''],
                    [''e6''], [''e7''], [''e8''], [''e9'']],
            Vector [0, 1, 0, 1, 0, 1, 0, 1, 0, 1, 0])
   \<and> fst (compute_features_with False 1 id stub_predict (tree_of split11) ''train'' world0) \<noteq>
       fst (compute_features_with False 10 id stub_predict (tree_of split11) ''train'' world0)"
proof -
  have a: "fst (compute_features_with False 1 id stub_predict (tree_of split11) ''train'' world0) =
     Inr (Matrix [[''e0''], [''e1''], [''e2''], [''e3''], [''e4''], [''e5''], [''e6''],
                  [''e7''], [''e8''], [''e9''], [''e10'']],
          Vector [0, 1, 0, 1, 0, 1, 0, 1, 0, 1, 0])"
    by code_simp
  have b: "fst (compute_features_with False 10 id stub_predict (tree_of split11) ''train'' world0) =
       Inr (Matrix [[''e0''], [''e10''], [''e1''], [''e2''], [''e3''], [''e4''], [''e5''],
                    [''e6''], [''e7''], [''e8''], [''e9'']],
            Vector [0, 1, 0, 1, 0, 1, 0, 1, 0, 1, 0])"
    by code_simp
  show ?thesis unfolding a b by simp
qed

text \<open>
  C3, as it is stated, fails on a split with fewer examples than shards. The split
  \<open>a, b, c, d\<close> gives four shards of one example each, on which the encoder runs; the
  fifth shard has no rows. In the modulo mode it is an empty dataset and
  \<open>to_tf_dataset\<close> raises at line 77; in the contiguous mode \<open>shard\<close> itself raises at
  line 73. No feature matrix is returned.
\<close>

theorem compute_features_small_split_raises:
  "fst (compute_features False id stub_predict (tree_of split4) ''train'' world0) =
     Inl (ValueError ''Unable to get the output signature because the dataset is empty.'')
   \<and> predict_calls (snd (compute_features False id stub_predict (tree_of split4) ''train'' world0)) =
     [[[(''a'', 0)]], [[(''b'', 1)]], [[(''c'', 0)]], [[(''d'', 1)]]]
   \<and> fst (compute_features True id stub_predict (tree_of split4) ''train'' world0) =
     Inl (IndexError ''Index 4 out of range for dataset of size 4.'')
   \<and> predict_calls (snd (compute_features True id stub_predict (tree_of split4) ''train'' world0)) =
     [[[(''a'', 0)]], [[(''b'', 1)]], [[(''c'', 0)]], [[(''d'', 1)]]]"
proof (intro conjI)
  show "fst (compute_features False id stub_predict (tree_of split4) ''train'' world0) =
     Inl (ValueError ''Unable to get the output signature because the dataset is empty.'')"
    by code_simp
  show "predict_calls (snd (compute_features False id stub_predict (tree_of split4) ''train'' world0)) =
     [[[(''a'', 0)]], [[(''b'', 1)]], [[(''c'', 0)]], [[(''d'', 1)]]]"
    by code_simp
  show "fst (compute_features True id stub_predict (tree_of split4) ''train'' world0) =
     Inl (IndexError ''Index 4 out of range for dataset of size 4.'')"
    by code_simp
  show "predict_calls (snd (compute_features True id stub_predict (tree_of split4) ''train'' world0)) =
     [[[(''a'', 0)]], [[(''b'', 1)]], [[(''c'', 0)]], [[(''d'', 1)]]]"
    by code_simp
qed

text \<open>
  C3, amended. Take a split of \<open>N\<close> examples with \<open>N\<close> at least the shard count, and an
  encoder that, on the dataset of each of the ten shards, returns one output block per
  example, all blocks holding the same number \<open>d\<close> of values. Then \<open>compute_features\<close>
  returns a feature matrix of exactly \<open>N\<close> rows and a label vector of length \<open>N\<close> which
  is the label column of the whole split; the datasets handed to the encoder hold every
  example of the split exactly once. This holds in either sharding mode. Nothing is
  asked of the encoder on other datasets.
\<close>

theorem compute_features_covers_split:
  assumes "get_split self dataset = Inr split"
    and "SHARDS \<le> length split"
    and "\<And>i. i < SHARDS \<Longrightarrow> predict (tf_shard_of contiguous SHARDS split i) = Inr (out i)"
    and "\<And>i. i < SHARDS \<Longrightarrow>
           length (out i) = length (concat (tf_shard_of contiguous SHARDS split i))"
    and "\<And>i block. i < SHARDS \<Longrightarrow> block \<in> set (out i) \<Longrightarrow> length (concat block) = d"
  shows "\<exists>X calls.
           compute_features contiguous rnd predict self dataset w =
             (Inr (Matrix X, Vector (map snd split)),
              w\<lparr>predict_calls := predict_calls w @ calls\<rparr>)
           \<and> length X = length split
           \<and> length (map snd split) = length split
           \<and> mset (concat (concat calls)) = mset split"
proof -
  have pos: "0 < SHARDS" by (simp add: SHARDS_def)
  let ?X = "concat (map (\<lambda>i. map concat (out i)) [0..<SHARDS])"
  let ?calls = "map (tf_shard_of contiguous SHARDS split) [0..<SHARDS]"
  have "compute_features contiguous rnd predict self dataset w =
          (Inr (Matrix ?X, Vector (map snd split)), w\<lparr>predict_calls := predict_calls w @ ?calls\<rparr>)"
    unfolding compute_features_def
    by (rule compute_features_with_ok
          [where out = out and d = d, OF assms(1) assms(3) assms(4) assms(5) pos assms(2)])
  moreover have "length ?X = length split"
    using assms(4) pos by (rule length_all_rows)
  moreover have "mset (concat (concat ?calls)) = mset split"
    using pos by (rule mset_all_shards)
  ultimately show ?thesis by auto
qed

text \<open>
  The hypotheses hold of the stub encoder on the eleven examples \<open>e0 .. e10\<close>, where
  every block has one value.
\<close>

theorem compute_features_covers_split_witness:
  "get_split (tree_of split11) ''train'' = Inr split11
   \<and> SHARDS \<le> length split11
   \<and> (\<forall>i. stub_predict (tf_shard_of False SHARDS split11 i) =
             Inr (stub_encode (tf_shard_of False SHARDS split11 i)))
   \<and> (\<forall>i. length (stub_encode (tf_shard_of False SHARDS split11 i)) =
             length (concat (tf_shard_of False SHARDS split11 i)))
   \<and> (\<forall>i. filter (\<lambda>block. length (concat block) \<noteq> 1)
               (stub_encode (tf_shard_of False SHARDS split11 i)) = [])
   \<and> (\<exists>X calls.
         compute_features False id stub_predict (tree_of split11) ''train'' world0 =
           (Inr (Matrix X, Vector (map snd split11)),
            world0\<lparr>predict_calls := predict_calls world0 @ calls\<rparr>)
         \<and> length X = length split11
         \<and> length (map snd split11) = length split11
         \<and> mset (concat (concat calls)) = mset split11)"
proof -
  let ?out = "\<lambda>i. stub_encode (tf_shard_of False SHARDS split11 i)"
  have h1: "get_split (tree_of split11) ''train'' = Inr split11" by (rule get_split_tree_of)
  have h2: "SHARDS \<le> length split11" by (simp add: SHARDS_def split11_def)
  have h3: "\<And>i. stub_predict (tf_shard_of False SHARDS split11 i) = Inr (?out i)"
    by (simp add: stub_predict_def)
  have h4: "\<And>i. length (?out i) = length (concat (tf_shard_of False SHARDS split11 i))"
    by (simp add: stub_encode_def)
  have h5: "\<And>i block. block \<in> set (?out i) \<Longrightarrow> length (concat block) = 1"
    by (auto simp: stub_encode_def)
  have h5': "\<And>i. filter (\<lambda>block. length (concat block) \<noteq> 1) (?out i) = []"
    using h5 by (simp add: filter_empty_conv)
  have c: "\<exists>X calls.
         compute_features False id stub_predict (tree_of split11) ''train'' world0 =
           (Inr (Matrix X, Vector (map snd split11)),
            world0\<lparr>predict_calls := predict_calls world0 @ calls\<rparr>)
         \<and> length X = length split11
         \<and> length (map snd split11) = length split11
         \<and> mset (concat (concat calls)) = mset split11"
    by (rule compute_features_covers_split
          [where predict = stub_predict and out = ?out and d = 1 and contiguous = False,
           OF h1 h2 h3 h4 h5])
  show ?thesis
    using h1 h2 h3 h4 h5' c by blast
qed

text \<open>
  C6. If the encoder raises on the dataset of some shard \<open>k\<close>, \<open>compute_features\<close>
  raises: it returns no matrix. Up to then the encoder was called once on each of the
  shards \<open>0 .. n - 1\<close> for some \<open>n\<close> not beyond \<open>k + 1\<close>, in this order and on nothing
  else, so no shard is tried again. \<open>generate_features\<close> raises the same error and the
  data directory is as it was before the call.
\<close>

theorem encoder_failure_aborts:
  assumes "get_split self dataset = Inr split"
    and "k < SHARDS"
    and "predict (tf_shard_of contiguous SHARDS split k) = Inl e"
  shows "\<exists>e' n. n \<le> Suc k
           \<and> compute_features contiguous rnd predict self dataset w =
               (Inl e', w\<lparr>predict_calls := predict_calls w @
                             map (tf_shard_of contiguous SHARDS split) [0..<n]\<rparr>)
           \<and> generate_features contiguous rnd predict self dataset w =
               (Inl e', w\<lparr>predict_calls := predict_calls w @
                             map (tf_shard_of contiguous SHARDS split) [0..<n]\<rparr>)
           \<and> files (snd (generate_features contiguous rnd predict self dataset w)) = files w"
proof -
  obtain e' n where n: "n \<le> Suc k"
    and cf: "compute_features contiguous rnd predict self dataset w =
               (Inl e', w\<lparr>predict_calls := predict_calls w @
                             map (tf_shard_of contiguous SHARDS split) [0..<n]\<rparr>)"
    using compute_features_with_fails
      [where predict = predict and c = contiguous and k = k and e = e and rnd = rnd and w = w,
       OF assms]
    by (auto simp: compute_features_def)
  have "generate_features contiguous rnd predict self dataset w =
               (Inl e', w\<lparr>predict_calls := predict_calls w @
                             map (tf_shard_of contiguous SHARDS split) [0..<n]\<rparr>)"
    by (simp add: generate_features_eq cf)
  with n cf show ?thesis
    by (intro exI [of _ e'] exI [of _ n]) (simp add: generate_features_files)
qed

text \<open>
  On the eleven examples \<open>e0 .. e10\<close> the failing stub raises on shard 3, which holds
  \<open>e3\<close>; the encoder has then been called on the shards 0 to 3.
\<close>

theorem encoder_failure_aborts_witness:
  "get_split (tree_of split11) ''train'' = Inr split11
   \<and> 3 < SHARDS
   \<and> failing_predict (tf_shard_of False SHARDS split11 3) = Inl (RuntimeError ''resource exhausted'')
   \<and> (\<exists>e' n. n \<le> Suc 3
         \<and> compute_features False id failing_predict (tree_of split11) ''train'' world0 =
             (Inl e', world0\<lparr>predict_calls := predict_calls world0 @
                           map (tf_shard_of False SHARDS split11) [0..<n]\<rparr>)
         \<and> generate_features False id failing_predict (tree_of split11) ''train'' world0 =
             (Inl e', world0\<lparr>predict_calls := predict_calls world0 @
                           map (tf_shard_of False SHARDS split11) [0..<n]\<rparr>)
         \<and> files (snd (generate_features False id failing_predict (tree_of split11) ''train'' world0)) =
             files world0)
   \<and> fst (compute_features False id failing_predict (tree_of split11) ''train'' world0) =
       Inl (RuntimeError ''resource exhausted'')
   \<and> predict_calls (snd (compute_features False id failing_predict (tree_of split11) ''train'' world0)) =
       [[[(''e0'', 0), (''e10'', 0)]], [[(''e1'', 1)]], [[(''e2'', 0)]], [[(''e3'', 1)]]]"
proof -
  have h1: "get_split (tree_of split11) ''train'' = Inr split11" by (rule get_split_tree_of)
  have h2: "3 < SHARDS" by (simp add: SHARDS_def)
  have h3: "failing_predict (tf_shard_of False SHARDS split11 3) = Inl (RuntimeError ''resource exhausted'')"
    by code_simp
  have v1: "fst (compute_features False id failing_predict (tree_of split11) ''train'' world0) =
       Inl (RuntimeError ''resource exhausted'')"
    by code_simp
  have v2: "predict_calls (snd (compute_features False id failing_predict (tree_of split11) ''train'' world0)) =
       [[[(''e0'', 0), (''e10'', 0)]], [[(''e1'', 1)]], [[(''e2'', 0)]], [[(''e3'', 1)]]]"
    by code_simp
  show ?thesis
    using h1 h2 h3 v1 v2
      encoder_failure_aborts
        [where predict = failing_predict and contiguous = False and k = 3 and rnd = id
           and w = world0, OF h1 h2 h3]
    by blast
qed

text \<open>
  C7. The result of \<open>compute_features\<close> does not depend on the permutation a shuffle
  would draw, because every per-shard dataset is built with \<open>shuffle=False\<close>; the
  arrays it returns do not depend on the state of the world either. Two extractions of
  the same split with the same encoder return the same rows in the same order.
\<close>

theorem sharding_deterministic:
  "compute_features contiguous rnd1 predict self dataset w =
     compute_features contiguous rnd2 predict self dataset w
   \<and> fst (compute_features contiguous rnd1 predict self dataset w1) =
       fst (compute_features contiguous rnd2 predict self dataset w2)"
  unfolding compute_features_def compute_features_with_def
  using shard_loop_rnd [of contiguous SHARDS rnd1 predict self dataset "[0..<SHARDS]" "[]" w rnd2]
    fst_compute_features_with_world [of contiguous SHARDS rnd1 predict self dataset w1 rnd2 w2]
  by (simp add: compute_features_with_def)

section \<open>The feature cache and the classifiers\<close>

text \<open>
  C4. The claim: what \<open>generate_features\<close> writes for a key, \<open>train\<close> reads back
  unchanged. What the methods do: after a successful extraction \<open>generate_features\<close>
  raises \<open>NameError\<close> for \<open>os\<close> and leaves the data directory empty, and \<open>train\<close> on the
  resulting world raises \<open>NameError\<close> for \<open>model_name\<close>; nothing is written and nothing
  is read back.
\<close>

theorem cache_round_trip_fails:
  "fst (generate_features False id stub_predict (tree_of split11) ''train'' world0) =
     Inl (NameError ''os'')
   \<and> files (snd (generate_features False id stub_predict (tree_of split11) ''train'' world0)) =
       Map.empty
   \<and> fst (train False id stub_predict stub_fit (tree_of split11)
            (snd (generate_features False id stub_predict (tree_of split11) ''train'' world0))) =
       Inl (NameError ''model_name'')"
proof -
  have "fst (compute_features False id stub_predict (tree_of split11) ''train'' world0) =
     Inr (Matrix [[''e0''], [''e10''], [''e1''], [''e2''], [''e3''], [''e4''], [''e5''],
                  [''e6''], [''e7''], [''e8''], [''e9'']],
          Vector [0, 1, 0, 1, 0, 1, 0, 1, 0, 1, 0])"
    by code_simp
  then have "fst (generate_features False id stub_predict (tree_of split11) ''train'' world0) =
     Inl (NameError ''os'')"
    by (rule generate_features_raises_os)
  moreover have "files (snd (generate_features False id stub_predict (tree_of split11) ''train'' world0)) =
       Map.empty"
    by (simp add: generate_features_files world0_def)
  ultimately show ?thesis by (simp add: train_raises)
qed

text \<open>
  C5. The claim: when the cached files of the training key exist, \<open>train\<close> loads them
  and does not run the encoder. What \<open>train\<close> does with both files present: it raises
  \<open>NameError\<close> for \<open>model_name\<close> on line 108; the encoder is not called (the world is
  unchanged), and the cached pair is not loaded either.
\<close>

theorem train_ignores_cache:
  "train contiguous rnd predict fit self
     (w\<lparr>files := (files w)(''data/X_feat_train_small_Bio_ClinicalBERT.pkl'' \<mapsto> X,
                           ''data/y_train_small_Bio_ClinicalBERT.pkl'' \<mapsto> y)\<rparr>) =
     (Inl (NameError ''model_name''), self,
      w\<lparr>files := (files w)(''data/X_feat_train_small_Bio_ClinicalBERT.pkl'' \<mapsto> X,
                            ''data/y_train_small_Bio_ClinicalBERT.pkl'' \<mapsto> y)\<rparr>)"
  by (rule train_raises)

text \<open>
  C8. The claim: \<open>train\<close> fits every configured classifier in list order and stops at
  the first error. What \<open>train\<close> does for any list of classifiers: it raises
  \<open>NameError\<close> for \<open>model_name\<close> before the loop, and every classifier is as it was.
  The loop by itself has the claimed policy (\<open>fit_loop_all\<close>, \<open>fit_loop_first_error\<close>).
\<close>

theorem train_fits_no_classifier:
  "train contiguous rnd predict fit (self\<lparr>classifiers := Some clfs\<rparr>) w =
     (Inl (NameError ''model_name''), self\<lparr>classifiers := Some clfs\<rparr>, w)"
  by (rule train_raises)

text \<open>
  C9, as it is stated, fails twice: \<open>train\<close> raises \<open>NameError\<close> for \<open>model_name\<close> on
  line 108 and never reaches \<open>os.listdir\<close>; and a call of \<open>generate_features\<close> whose
  extraction raises (here: \<open>tokenized_dataset\<close> was never assigned) propagates that
  error instead of a \<open>NameError\<close>.
\<close>

theorem cache_errors_counterexample:
  "fst (train False id stub_predict stub_fit (tree_of split11) world0) =
     Inl (NameError ''model_name'')
   \<and> fst (train False id stub_predict stub_fit (tree_of split11) world0) \<noteq>
       Inl (NameError ''os'')
   \<and> fst (generate_features False id stub_predict unloaded_tree ''train'' world0) =
       Inl (AttributeError ''tokenized_dataset'')"
proof -
  have "fst (compute_features False id stub_predict unloaded_tree ''train'' world0) =
       Inl (AttributeError ''tokenized_dataset'')"
    by code_simp
  then have "fst (generate_features False id stub_predict unloaded_tree ''train'' world0) =
       Inl (AttributeError ''tokenized_dataset'')"
    by (cases "compute_features False id stub_predict unloaded_tree ''train'' world0")
       (simp add: generate_features_eq)
  then show ?thesis by (simp add: train_raises)
qed

text \<open>
  C9, amended. The module binds no name \<open>os\<close>. A call of \<open>generate_features\<close> whose
  extraction raises ends with that error, and one whose extraction returns ends with
  the \<open>NameError\<close> for \<open>os\<close> of line 100; in both cases the world is the one the
  extraction left, so every call raises and the data directory is as it was. Every call
  of \<open>train\<close> raises \<open>NameError\<close> for \<open>model_name\<close>, with the object and the world
  unchanged. So no cache file is ever written by this module.
\<close>

theorem cache_put_never_completes:
  "map_of module_globals ''os'' = None
   \<and> generate_features contiguous rnd predict self dataset w =
       (case compute_features contiguous rnd predict self dataset w of
          (Inl e, w1) \<Rightarrow> (Inl e, w1)
        | (Inr v, w1) \<Rightarrow> (Inl (NameError ''os''), w1))
   \<and> isl (fst (generate_features contiguous rnd predict self dataset w))
   \<and> files (snd (generate_features contiguous rnd predict self dataset w)) = files w
   \<and> (isl (fst (compute_features contiguous rnd predict self dataset w))
        \<or> fst (generate_features contiguous rnd predict self dataset w) = Inl (NameError ''os''))
   \<and> train contiguous rnd predict fit self w = (Inl (NameError ''model_name''), self, w)"
proof -
  have "map_of module_globals ''os'' = None" by (simp add: module_globals_def)
  moreover have "generate_features contiguous rnd predict self dataset w =
       (case compute_features contiguous rnd predict self dataset w of
          (Inl e, w1) \<Rightarrow> (Inl e, w1)
        | (Inr v, w1) \<Rightarrow> (Inl (NameError ''os''), w1))"
    by (rule generate_features_eq)
  moreover have "isl (fst (compute_features contiguous rnd predict self dataset w))
        \<or> fst (generate_features contiguous rnd predict self dataset w) = Inl (NameError ''os'')"
    by (cases "compute_features contiguous rnd predict self dataset w")
       (auto simp: generate_features_eq split: sum.splits)
  moreover have "isl (fst (generate_features contiguous rnd predict self dataset w))"
    by (rule generate_features_isl)
  moreover have "files (snd (generate_features contiguous rnd predict self dataset w)) = files w"
    by (rule generate_features_files)
  moreover have "train contiguous rnd predict fit self w = (Inl (NameError ''model_name''), self, w)"
    by (rule train_raises)
  ultimately show ?thesis by blast
qed

text \<open>
  Both branches occur: on the eleven examples the extraction returns and the call
  raises for \<open>os\<close>; on an object without \<open>tokenized_dataset\<close> the extraction's
  \<open>AttributeError\<close> is what the call raises.
\<close>

theorem cache_put_never_completes_witness:
  "\<not> isl (fst (compute_features False id stub_predict (tree_of split11) ''train'' world0))
   \<and> fst (generate_features False id stub_predict (tree_of split11) ''train'' world0) =
       Inl (NameError ''os'')
   \<and> files (snd (generate_features False id stub_predict (tree_of split11) ''train'' world0)) =
       files world0
   \<and> train False id stub_predict stub_fit (tree_of split11) world0 =
       (Inl (NameError ''model_name''), tree_of split11, world0)
   \<and> compute_features False id stub_predict unloaded_tree ''train'' world0 =
       (Inl (AttributeError ''tokenized_dataset''), world0)
   \<and> generate_features False id stub_predict unloaded_tree ''train'' world0 =
       (Inl (AttributeError ''tokenized_dataset''), world0)"
proof -
  have "fst (compute_features False id stub_predict (tree_of split11) ''train'' world0) =
     Inr (Matrix [[''e0''], [''e10''], [''e1''], [''e2''], [''e3''], [''e4''], [''e5''],
                  [''e6''], [''e7''], [''e8''], [''e9'']],
          Vector [0, 1, 0, 1, 0, 1, 0, 1, 0, 1, 0])"
    by code_simp
  then have a: "\<not> isl (fst (compute_features False id stub_predict (tree_of split11) ''train'' world0))"
    by simp
  have b: "compute_features False id stub_predict unloaded_tree ''train'' world0 =
       (Inl (AttributeError ''tokenized_dataset''), world0)"
    by (simp add: compute_features_def compute_features_with_def SHARDS_def upt_conv_Cons
        get_split_def unloaded_tree_def)
  have c: "generate_features False id stub_predict unloaded_tree ''train'' world0 =
       (Inl (AttributeError ''tokenized_dataset''), world0)"
    using cache_put_never_completes
      [where contiguous = False and rnd = id and predict = stub_predict and self = unloaded_tree
         and dataset = "''train''" and w = world0 and fit = stub_fit]
    by (simp add: b)
  show ?thesis
    using a b c
      cache_put_never_completes
        [where contiguous = False and rnd = id and predict = stub_predict
           and self = "tree_of split11" and dataset = "''train''" and w = world0
           and fit = stub_fit]
    by blast
qed

end
